theory Spec2Isabelle
  imports Complex_Main
begin

section \<open>Values shared by the services\<close>

text \<open>
  The services of the repository (\<^verbatim>\<open>categoryService.ts\<close> and the user service) are
  functions over a relational database reached through Prisma. The tables are modelled
  as lists of rows, a nullable column as an \<open>option\<close>, a JavaScript \<^verbatim>\<open>bigint\<close> or
  integral \<^verbatim>\<open>number\<close> as \<open>int\<close>, a thrown error as the left injection of a sum.
\<close>

text \<open>The single quote character, which cannot end an Isabelle string literal.\<close>

definition sq :: string where
  "sq = [CHR 0x27]"

text \<open>
  Decimal rendering of an integer, as a JavaScript template literal renders a
  \<^verbatim>\<open>bigint\<close> (\<^verbatim>\<open>`${acc}`\<close>): the digits, with a leading minus sign when negative.
\<close>

definition digit_char :: "nat \<Rightarrow> char" where
  "digit_char d = ''0123456789'' ! d"

fun digits_acc :: "nat \<Rightarrow> string \<Rightarrow> string" where
  "digits_acc n acc =
     (if n < 10 then digit_char n # acc
      else digits_acc (n div 10) (digit_char (n mod 10) # acc))"

declare digits_acc.simps [simp del]

definition bigint_to_string :: "int \<Rightarrow> string" where
  "bigint_to_string i =
     (if 0 \<le> i then digits_acc (nat i) [] else CHR ''-'' # digits_acc (nat (- i)) [])"

section \<open>Accounts and the list of excluded accounts\<close>

text \<open>
  A row of the \<^verbatim>\<open>accounts\<close> table, with the columns the services read:
  \<^verbatim>\<open>account_id\<close>, \<^verbatim>\<open>exclude_from_budgets\<close> and the nullable \<^verbatim>\<open>current_balance\<close>.
\<close>

record account =
  account_id :: int
  exclude_from_budgets :: bool
  current_balance :: "int option"

text \<open>
  \<^verbatim>\<open>buildSqlForExcludedAccountsList\<close> (categoryService.ts, lines 53-68). The argument may
  be \<^verbatim>\<open>null\<close> or \<^verbatim>\<open>undefined\<close> (\<open>None\<close>). The \<^verbatim>\<open>for\<close> loop over \<^verbatim>\<open>cnt\<close> is the
  recursive function \<open>buildSql_loop\<close>, whose third argument is the variable \<^verbatim>\<open>sql\<close>.
\<close>

function buildSql_loop :: "account list \<Rightarrow> nat \<Rightarrow> string \<Rightarrow> string" where
  "buildSql_loop excludedAccs cnt sql =
     (if cnt < length excludedAccs then
        (let acc = account_id (excludedAccs ! cnt);
             sql1 = sql @ ('' '' @ sq @ bigint_to_string acc @ sq @ '' '');
             sql2 = (if int cnt \<noteq> int (length excludedAccs) - 1 then sql1 @ '', '' else sql1)
         in buildSql_loop excludedAccs (cnt + 1) sql2)
      else sql)"
  by pat_completeness auto
termination
  by (relation "measure (\<lambda>(excludedAccs, cnt, sql). length excludedAccs - cnt)") auto

declare buildSql_loop.simps [simp del]

definition buildSqlForExcludedAccountsList :: "account list option \<Rightarrow> string" where
  "buildSqlForExcludedAccountsList excludedAccs =
     (case excludedAccs of
        None \<Rightarrow> '' -1 ''
      | Some accs \<Rightarrow>
          if length accs = 0 then '' -1 ''
          else buildSql_loop accs 0 [] @ [])"

text \<open>
  The list as the specification words it: every account id in order, wrapped in single
  quotes with a space on each side, and \<open>'', ''\<close> between consecutive entries.
\<close>

definition quoted_entry :: "account \<Rightarrow> string" where
  "quoted_entry a = '' '' @ sq @ bigint_to_string (account_id a) @ sq @ '' ''"

fun join_entries :: "string list \<Rightarrow> string" where
  "join_entries [] = []"
| "join_entries [e] = e"
| "join_entries (e # f # es) = e @ '', '' @ join_entries (f # es)"

section \<open>Raw SQL queries\<close>

text \<open>
  The aggregate queries are written with Prisma's tagged template \<^verbatim>\<open>$queryRaw`...`\<close>.
  A tagged template hands the function the literal chunks of the template and,
  separately, the values of the \<^verbatim>\<open>${...}\<close> expressions; Prisma sends the chunks joined
  by the placeholder \<^verbatim>\<open>?\<close> as the text of a prepared statement and the values as its
  bound parameters. A query is therefore the pair of both lists. A value is an integer
  (\<^verbatim>\<open>number\<close>, \<^verbatim>\<open>bigint\<close>) or a string.
\<close>

datatype sql_value = SqlInt int | SqlString string

record raw_query =
  query_strings :: "string list"
  query_values :: "sql_value list"

definition queryRaw :: "string list \<Rightarrow> sql_value list \<Rightarrow> raw_query" where
  "queryRaw strings vals = \<lparr>query_strings = strings, query_values = vals\<rparr>"

fun join_placeholders :: "string list \<Rightarrow> string" where
  "join_placeholders [] = []"
| "join_placeholders [s] = s"
| "join_placeholders (s # t # ss) = s @ ''?'' @ join_placeholders (t # ss)"

definition sql_text :: "raw_query \<Rightarrow> string" where
  "sql_text q = join_placeholders (query_strings q)"

text \<open>
  The literal chunks of the three aggregate templates (categoryService.ts, lines 130-140,
  142-146 and 90-106), with every run of layout white space written as one space.
\<close>

definition period_with_transfers_strings :: "string list" where
  "period_with_transfers_strings =
    [''SELECT sum(if(type = 'I' OR (type = 'T' AND accounts_account_to_id NOT IN ('',
     '')), amount, 0)) as 'category_balance_credit', sum(if(type = 'E' OR (type = 'T' AND accounts_account_from_id NOT IN ('',
     '')), amount, 0)) as 'category_balance_debit' FROM transactions WHERE date_timestamp between '',
     '' AND '',
     '' AND categories_category_id = '',
     '' '']"

definition period_without_transfers_strings :: "string list" where
  "period_without_transfers_strings =
    [''SELECT sum(if(type = 'I', amount, 0)) as 'category_balance_credit', sum(if(type = 'E', amount, 0)) as 'category_balance_debit' FROM transactions WHERE date_timestamp between '',
     '' AND '',
     '' AND categories_category_id = '',
     '' '']"

definition average_last_12_months_strings :: "string list" where
  "average_last_12_months_strings =
    [''SELECT avg(category_balance_credit) as 'category_balance_credit', avg(category_balance_debit) as 'category_balance_debit' FROM (SELECT sum(if(type = 'I' OR (type = 'T' AND '',
     ''), amount, 0)) as 'category_balance_credit', sum(if(type = 'E' OR (type = 'T' AND '',
     ''), amount, 0)) as 'category_balance_debit', MONTH(FROM_UNIXTIME(date_timestamp)) as 'month', YEAR(FROM_UNIXTIME(date_timestamp)) as 'year' FROM transactions WHERE categories_category_id = '',
     '' AND date_timestamp > UNIX_TIMESTAMP(DATE_SUB(DATE_FORMAT(NOW(), '%Y-%m-01'), INTERVAL 12 month)) GROUP BY month, year) a'']"

section \<open>Values and operators of the database engine\<close>

text \<open>
  The statements are MySQL (\<^verbatim>\<open>if(...)\<close>, \<^verbatim>\<open>FROM_UNIXTIME\<close>, \<^verbatim>\<open>truncate\<close>). A condition
  has three truth values; \<open>None\<close> is \<^verbatim>\<open>NULL\<close>.

  When an integer column is compared with a bound string, MySQL converts the string to a
  number: leading white space is skipped, then the longest numeric prefix is read, and a
  string with no such prefix counts as 0. \<open>sql_string_to_number\<close> reads an optional sign
  and the decimal digits that follow; a fraction or an exponent is not read (no string
  bound by the services below has one in its prefix, see \<open>excluded_list_number\<close>).
\<close>

definition is_sql_space :: "char \<Rightarrow> bool" where
  "is_sql_space c = (c \<in> set [CHR '' '', CHR 0x09, CHR 0x0A, CHR 0x0B, CHR 0x0C, CHR 0x0D])"

definition digit_value :: "char \<Rightarrow> int option" where
  "digit_value c =
     (let n = (of_char c :: nat) in if 48 \<le> n \<and> n \<le> 57 then Some (int n - 48) else None)"

fun leading_digits :: "string \<Rightarrow> int \<Rightarrow> int" where
  "leading_digits [] v = v"
| "leading_digits (c # cs) v =
     (case digit_value c of None \<Rightarrow> v | Some d \<Rightarrow> leading_digits cs (10 * v + d))"

definition sql_string_to_number :: "string \<Rightarrow> int" where
  "sql_string_to_number s =
     (case dropWhile is_sql_space s of
        [] \<Rightarrow> 0
      | c # cs \<Rightarrow>
          if c = CHR ''-'' then - leading_digits cs 0
          else if c = CHR ''+'' then leading_digits cs 0
          else leading_digits (c # cs) 0)"

fun sql_number :: "sql_value \<Rightarrow> int" where
  "sql_number (SqlInt i) = i"
| "sql_number (SqlString s) = sql_string_to_number s"

text \<open>\<^verbatim>\<open>col = ?\<close>, \<^verbatim>\<open>col NOT IN (?)\<close> with a single bound value, and \<^verbatim>\<open>col between ? AND ?\<close>
  on an integer column.\<close>

definition sql_eq :: "int option \<Rightarrow> sql_value \<Rightarrow> bool option" where
  "sql_eq col v = map_option (\<lambda>x. x = sql_number v) col"

definition sql_not_in :: "int option \<Rightarrow> sql_value \<Rightarrow> bool option" where
  "sql_not_in col v = map_option (\<lambda>x. x \<noteq> sql_number v) col"

definition sql_between :: "int \<Rightarrow> sql_value \<Rightarrow> sql_value \<Rightarrow> bool option" where
  "sql_between x lo hi = Some (sql_number lo \<le> x \<and> x \<le> sql_number hi)"

fun sql_and :: "bool option \<Rightarrow> bool option \<Rightarrow> bool option" where
  "sql_and (Some False) _ = Some False"
| "sql_and _ (Some False) = Some False"
| "sql_and (Some True) (Some True) = Some True"
| "sql_and _ _ = None"

fun sql_or :: "bool option \<Rightarrow> bool option \<Rightarrow> bool option" where
  "sql_or (Some True) _ = Some True"
| "sql_or _ (Some True) = Some True"
| "sql_or (Some False) (Some False) = Some False"
| "sql_or _ _ = None"

text \<open>\<^verbatim>\<open>if(c, a, b)\<close> and a \<^verbatim>\<open>WHERE\<close> clause take the first branch, or keep the row,
  only when the condition is true.\<close>

definition sql_if :: "bool option \<Rightarrow> 'a \<Rightarrow> 'a \<Rightarrow> 'a" where
  "sql_if c a b = (if c = Some True then a else b)"

definition sql_where :: "('r \<Rightarrow> bool option) \<Rightarrow> 'r list \<Rightarrow> 'r list" where
  "sql_where c rows = filter (\<lambda>r. c r = Some True) rows"

text \<open>\<^verbatim>\<open>sum(...)\<close> over the selected rows is \<^verbatim>\<open>NULL\<close> when no row is selected.\<close>

definition sql_sum :: "('r \<Rightarrow> int) \<Rightarrow> 'r list \<Rightarrow> int option" where
  "sql_sum f rows = (if rows = [] then None else Some (sum_list (map f rows)))"

section \<open>Transactions and the amounts of a category\<close>

text \<open>
  A row of the \<^verbatim>\<open>transactions\<close> table, with the columns the aggregate statements read.
  The column \<^verbatim>\<open>type\<close> is the field \<open>trx_type\<close>; the statements compare it with the
  one-letter codes \<^verbatim>\<open>'I'\<close>, \<^verbatim>\<open>'E'\<close> and \<^verbatim>\<open>'T'\<close>.
\<close>

record transaction =
  date_timestamp :: int
  amount :: int
  trx_type :: string
  accounts_account_to_id :: "int option"
  accounts_account_from_id :: "int option"
  categories_category_id :: "int option"

record category_amounts =
  category_balance_credit :: "int option"
  category_balance_debit :: "int option"

section \<open>The remaining tables and the database\<close>

text \<open>
  A row of \<^verbatim>\<open>users\<close>. The user service looks a row up by \<^verbatim>\<open>user_id\<close> and by
  \<^verbatim>\<open>username\<close> with \<^verbatim>\<open>findUnique\<close>, so both are unique keys of the table.
\<close>

record user =
  user_id :: int
  username :: string
  password :: string
  email :: string
  sessionkey :: "string option"
  sessionkey_mobile :: "string option"
  trustlimit :: "int option"
  trustlimit_mobile :: "int option"
  last_update_timestamp :: int

text \<open>
  A row of \<^verbatim>\<open>categories\<close>; the columns \<^verbatim>\<open>name\<close>, \<^verbatim>\<open>status\<close>, \<^verbatim>\<open>type\<close>,
  \<^verbatim>\<open>description\<close> and \<^verbatim>\<open>exclude_from_budgets\<close> carry the prefix \<open>cat_\<close>.
\<close>

record category =
  category_id :: int
  users_user_id :: int
  cat_name :: string
  cat_status :: string
  cat_type :: string
  cat_description :: "string option"
  color_gradient :: "string option"
  cat_exclude_from_budgets :: bool

text \<open>
  A row of \<^verbatim>\<open>budgets_has_categories\<close>; its column \<^verbatim>\<open>categories_category_id\<close> is the
  field \<open>bhc_category_id\<close>. The three amounts are stored as integers (hundredths) and
  may be \<^verbatim>\<open>NULL\<close>.
\<close>

record budget_has_category =
  budgets_budget_id :: int
  budgets_users_user_id :: int
  bhc_category_id :: int
  planned_amount_credit :: "int option"
  planned_amount_debit :: "int option"
  current_amount :: "int option"

record database =
  accounts :: "account list"
  transactions :: "transaction list"
  users :: "user list"
  categories :: "category list"
  budgets_has_categories :: "budget_has_category list"

text \<open>
  Errors: \<^verbatim>\<open>APIError.notAuthorized(message)\<close>, and the errors Prisma itself throws (a
  violated unique key, a row to update or delete that does not exist).
\<close>

datatype api_error = NotAuthorized string | PrismaError string

text \<open>
  Modelled from the spec: \<^verbatim>\<open>performDatabaseRequest\<close> (config/prisma.js) is not among the
  sources. The services call it as \<^verbatim>\<open>performDatabaseRequest(async (prismaTx) => ..., dbClient)\<close>;
  it is taken to run the callback on a client of the same database, which for the
  read-only callbacks below is the application of the callback to the database state.
\<close>

definition performDatabaseRequest :: "(database \<Rightarrow> 'a) \<Rightarrow> database \<Rightarrow> 'a" where
  "performDatabaseRequest body dbClient = body dbClient"

section \<open>Amounts of a category in a period\<close>

text \<open>\<^verbatim>\<open>accounts.findMany({where: {exclude_from_budgets: true}})\<close>.\<close>

definition accounts_to_exclude :: "database \<Rightarrow> account list" where
  "accounts_to_exclude db = filter exclude_from_budgets (accounts db)"

text \<open>
  What the database returns for the statement \<open>period_with_transfers_strings\<close> with the
  bound values \<open>[to_list, from_list, fromDate, toDate, categoryId]\<close>: one row of two sums
  over the transactions selected by the \<^verbatim>\<open>WHERE\<close> clause. Each \<^verbatim>\<open>NOT IN (?)\<close> has
  one bound value. With another number of values the statement cannot be executed (no
  row).
\<close>

definition credit_condition :: "sql_value \<Rightarrow> transaction \<Rightarrow> bool option" where
  "credit_condition to_list t =
     sql_or (Some (trx_type t = ''I''))
            (sql_and (Some (trx_type t = ''T'')) (sql_not_in (accounts_account_to_id t) to_list))"

definition debit_condition :: "sql_value \<Rightarrow> transaction \<Rightarrow> bool option" where
  "debit_condition from_list t =
     sql_or (Some (trx_type t = ''E''))
            (sql_and (Some (trx_type t = ''T'')) (sql_not_in (accounts_account_from_id t) from_list))"

definition period_condition :: "sql_value \<Rightarrow> sql_value \<Rightarrow> sql_value \<Rightarrow> transaction \<Rightarrow> bool option" where
  "period_condition fromDate toDate categoryId t =
     sql_and (sql_between (date_timestamp t) fromDate toDate)
             (sql_eq (categories_category_id t) categoryId)"

fun period_with_transfers_rows :: "sql_value list \<Rightarrow> database \<Rightarrow> category_amounts list" where
  "period_with_transfers_rows [to_list, from_list, fromDate, toDate, categoryId] db =
     (let selected = sql_where (period_condition fromDate toDate categoryId) (transactions db)
      in [\<lparr>category_balance_credit =
             sql_sum (\<lambda>t. sql_if (credit_condition to_list t) (amount t) 0) selected,
           category_balance_debit =
             sql_sum (\<lambda>t. sql_if (debit_condition from_list t) (amount t) 0) selected\<rparr>])"
| "period_with_transfers_rows _ db = []"

fun period_without_transfers_rows :: "sql_value list \<Rightarrow> database \<Rightarrow> category_amounts list" where
  "period_without_transfers_rows [fromDate, toDate, categoryId] db =
     (let selected = sql_where (period_condition fromDate toDate categoryId) (transactions db)
      in [\<lparr>category_balance_credit =
             sql_sum (\<lambda>t. sql_if (Some (trx_type t = ''I'')) (amount t) 0) selected,
           category_balance_debit =
             sql_sum (\<lambda>t. sql_if (Some (trx_type t = ''E'')) (amount t) 0) selected\<rparr>])"
| "period_without_transfers_rows _ db = []"

text \<open>
  \<^verbatim>\<open>getAmountForCategoryInPeriod\<close> (categoryService.ts, lines 109-147). The function
  \<open>getAmountForCategoryInPeriod_query\<close> is the \<^verbatim>\<open>$queryRaw\<close> call it makes, that is the
  statement and the bound values it sends; \<open>getAmountForCategoryInPeriod\<close> is the rows
  the database answers.
\<close>

definition getAmountForCategoryInPeriod_query ::
  "int \<Rightarrow> int \<Rightarrow> int \<Rightarrow> bool \<Rightarrow> database \<Rightarrow> raw_query" where
  "getAmountForCategoryInPeriod_query categoryId fromDate toDate includeTransfers prismaTx =
     (let listOfAccountsToExclude = accounts_to_exclude prismaTx;
          accountsToExcludeListInSQL =
            buildSqlForExcludedAccountsList (Some listOfAccountsToExclude)
      in if includeTransfers then
           queryRaw period_with_transfers_strings
             [SqlString accountsToExcludeListInSQL, SqlString accountsToExcludeListInSQL,
              SqlInt fromDate, SqlInt toDate, SqlInt categoryId]
         else
           queryRaw period_without_transfers_strings
             [SqlInt fromDate, SqlInt toDate, SqlInt categoryId])"

definition getAmountForCategoryInPeriod ::
  "int \<Rightarrow> int \<Rightarrow> int \<Rightarrow> bool \<Rightarrow> database \<Rightarrow> category_amounts list" where
  "getAmountForCategoryInPeriod categoryId fromDate toDate includeTransfers dbClient =
     performDatabaseRequest (\<lambda>prismaTx.
       let q = getAmountForCategoryInPeriod_query categoryId fromDate toDate includeTransfers prismaTx
       in if includeTransfers then period_with_transfers_rows (query_values q) prismaTx
          else period_without_transfers_rows (query_values q) prismaTx) dbClient"

text \<open>
  \<^verbatim>\<open>getAverageAmountForCategoryInLast12Months\<close> (lines 70-107): the two excerpts it builds
  and the \<^verbatim>\<open>$queryRaw\<close> call it makes.
\<close>

definition getAverageAmountForCategoryInLast12Months_query :: "int \<Rightarrow> database \<Rightarrow> raw_query" where
  "getAverageAmountForCategoryInLast12Months_query categoryId dbClient =
     (let listOfAccountsToExclude = accounts_to_exclude dbClient;
          (accsExclusionSqlExcerptAccountsTo, accsExclusionSqlExcerptAccountsFrom) =
            (if length listOfAccountsToExclude < 1 then ('' 1 == 1 '', '' 1 == 1 '')
             else
               (let accountsToExcludeListInSQL =
                      buildSqlForExcludedAccountsList (Some listOfAccountsToExclude)
                in (''accounts_account_to_id NOT IN '' @ accountsToExcludeListInSQL @ '' '',
                    ''accounts_account_from_id NOT IN '' @ accountsToExcludeListInSQL @ '' '')))
      in queryRaw average_last_12_months_strings
           [SqlString accsExclusionSqlExcerptAccountsTo,
            SqlString accsExclusionSqlExcerptAccountsFrom, SqlInt categoryId])"

text \<open>
  The sums as the specification words them: over the category's transactions in the
  window, a credit is an income or a transfer whose destination account is not an
  excluded account, a debit an expense or a transfer whose source account is not one.
\<close>

definition excluded_account_ids :: "database \<Rightarrow> int set" where
  "excluded_account_ids db = account_id ` set (accounts_to_exclude db)"

definition in_window :: "int \<Rightarrow> int \<Rightarrow> int \<Rightarrow> transaction \<Rightarrow> bool" where
  "in_window categoryId fromDate toDate t =
     (fromDate \<le> date_timestamp t \<and> date_timestamp t \<le> toDate \<and>
      categories_category_id t = Some categoryId)"

definition spec_is_credit :: "database \<Rightarrow> transaction \<Rightarrow> bool" where
  "spec_is_credit db t =
     (trx_type t = ''I'' \<or>
      (trx_type t = ''T'' \<and>
       (case accounts_account_to_id t of None \<Rightarrow> False | Some a \<Rightarrow> a \<notin> excluded_account_ids db)))"

definition spec_is_debit :: "database \<Rightarrow> transaction \<Rightarrow> bool" where
  "spec_is_debit db t =
     (trx_type t = ''E'' \<or>
      (trx_type t = ''T'' \<and>
       (case accounts_account_from_id t of None \<Rightarrow> False | Some a \<Rightarrow> a \<notin> excluded_account_ids db)))"

definition spec_credit_sum :: "int \<Rightarrow> int \<Rightarrow> int \<Rightarrow> database \<Rightarrow> int" where
  "spec_credit_sum categoryId fromDate toDate db =
     sum_list (map amount (filter (\<lambda>t. in_window categoryId fromDate toDate t \<and> spec_is_credit db t)
       (transactions db)))"

definition spec_debit_sum :: "int \<Rightarrow> int \<Rightarrow> int \<Rightarrow> database \<Rightarrow> int" where
  "spec_debit_sum categoryId fromDate toDate db =
     sum_list (map amount (filter (\<lambda>t. in_window categoryId fromDate toDate t \<and> spec_is_debit db t)
       (transactions db)))"

section \<open>Dates\<close>

text \<open>
  \<^verbatim>\<open>new Date(year, monthIndex, day)\<close> is JavaScript's own constructor. ECMAScript
  defines it by the operations below, written here for integral arguments: a year from 0
  to 99 stands for 1900 + year, \<open>MakeDay\<close> carries a month index outside 0..11 into the
  year and counts the days since 1 January 1970, \<open>MakeDate\<close> turns the day number into
  milliseconds. The result \<open>new_Date\<close> is the time value of local midnight of that day
  on the local clock. The step from the local clock to UTC depends on the time zone of
  the host (and leaves the range of \<^verbatim>\<open>Date\<close> for years outside -271820..275759); it is
  part of what \<^verbatim>\<open>getUnixTimestampFromDate\<close> is given.
\<close>

definition msPerDay :: int where
  "msPerDay = 86400000"

definition DaysInYear :: "int \<Rightarrow> int" where
  "DaysInYear y =
     (if y mod 4 \<noteq> 0 then 365
      else if y mod 100 \<noteq> 0 then 366
      else if y mod 400 \<noteq> 0 then 365
      else 366)"

definition DayFromYear :: "int \<Rightarrow> int" where
  "DayFromYear y =
     365 * (y - 1970) + (y - 1969) div 4 - (y - 1901) div 100 + (y - 1601) div 400"

definition InLeapYear :: "int \<Rightarrow> bool" where
  "InLeapYear y = (DaysInYear y = 366)"

text \<open>The day of the year on which month \<open>mn\<close> (0..11) begins.\<close>

definition month_start_day :: "int \<Rightarrow> bool \<Rightarrow> int" where
  "month_start_day mn leap =
     [0, 31, 59, 90, 120, 151, 181, 212, 243, 273, 304, 334] ! nat mn +
     (if leap \<and> 2 \<le> mn then 1 else 0)"

definition MakeDay :: "int \<Rightarrow> int \<Rightarrow> int \<Rightarrow> int" where
  "MakeDay year month date =
     (let ym = year + month div 12;
          mn = month mod 12
      in DayFromYear ym + month_start_day mn (InLeapYear ym) + date - 1)"

definition MakeDate :: "int \<Rightarrow> int \<Rightarrow> int" where
  "MakeDate day time = day * msPerDay + time"

definition MakeFullYear :: "int \<Rightarrow> int" where
  "MakeFullYear year = (if 0 \<le> year \<and> year \<le> 99 then 1900 + year else year)"

definition new_Date :: "int \<Rightarrow> int \<Rightarrow> int \<Rightarrow> int" where
  "new_Date year monthIndex day = MakeDate (MakeDay (MakeFullYear year) monthIndex day) 0"

text \<open>\<^verbatim>\<open>amounts[0]\<close>: the first row, \<^verbatim>\<open>undefined\<close> (\<open>None\<close>) when there is none.\<close>

definition first_row :: "'a list \<Rightarrow> 'a option" where
  "first_row rows = (case rows of [] \<Rightarrow> None | r # _ \<Rightarrow> Some r)"

text \<open>
  \<^verbatim>\<open>getAmountForCategoryInMonth\<close> (categoryService.ts, lines 154-177) and
  \<^verbatim>\<open>getAmountForCategoryInYear\<close> (lines 179-197). \<^verbatim>\<open>DateTimeUtils.getUnixTimestampFromDate\<close>
  is not among the sources and is the first parameter of both.
\<close>

definition getAmountForCategoryInMonth ::
  "(int \<Rightarrow> int) \<Rightarrow> int \<Rightarrow> int \<Rightarrow> int \<Rightarrow> bool \<Rightarrow> database \<Rightarrow> category_amounts option" where
  "getAmountForCategoryInMonth getUnixTimestampFromDate categoryId month year includeTransfers dbClient =
     performDatabaseRequest (\<lambda>prismaTx.
       let nextMonth = (if month < 12 then month + 1 else 1);
           nextMonthsYear = (if month < 12 then year else year + 1);
           maxDate = getUnixTimestampFromDate (new_Date nextMonthsYear (nextMonth - 1) 1);
           minDate = getUnixTimestampFromDate (new_Date year (month - 1) 1);
           amounts = getAmountForCategoryInPeriod categoryId minDate maxDate includeTransfers prismaTx
       in first_row amounts) dbClient"

definition getAmountForCategoryInYear ::
  "(int \<Rightarrow> int) \<Rightarrow> int \<Rightarrow> int \<Rightarrow> bool \<Rightarrow> database \<Rightarrow> category_amounts option" where
  "getAmountForCategoryInYear getUnixTimestampFromDate categoryId year includeTransfers dbClient =
     (let maxDate = getUnixTimestampFromDate (new_Date year 11 31);
          minDate = getUnixTimestampFromDate (new_Date year 0 1);
          amounts = getAmountForCategoryInPeriod categoryId minDate maxDate includeTransfers dbClient
      in first_row amounts)"

text \<open>
  The calendar as the specification words it: the first instant of month \<open>m\<close> (1..12) of
  year \<open>y\<close> on the local clock, the month that follows a month, and the number of days
  of a month.
\<close>

definition first_instant_of_month :: "int \<Rightarrow> int \<Rightarrow> int" where
  "first_instant_of_month y m = MakeDate (MakeDay y (m - 1) 1) 0"

definition following_month :: "int \<Rightarrow> int \<Rightarrow> int \<times> int" where
  "following_month y m = (if m = 12 then (y + 1, 1) else (y, m + 1))"

definition DaysInMonth :: "int \<Rightarrow> int \<Rightarrow> int" where
  "DaysInMonth y m =
     (if m = 2 then (if InLeapYear y then 29 else 28)
      else if m = 4 \<or> m = 6 \<or> m = 9 \<or> m = 11 then 30
      else 31)"

text \<open>
  An instance of the parameter \<^verbatim>\<open>getUnixTimestampFromDate\<close> for concrete inputs: the whole
  seconds of the time value, on a host whose local clock is UTC.
\<close>

definition utc_seconds :: "int \<Rightarrow> int" where
  "utc_seconds t = t div 1000"

section \<open>The user service\<close>

text \<open>
  \<^verbatim>\<open>findUnique\<close> on \<^verbatim>\<open>users\<close> by \<^verbatim>\<open>username\<close> and by \<^verbatim>\<open>user_id\<close>: the row, or \<open>None\<close>.
  \<^verbatim>\<open>findUniqueOrThrow\<close> throws where \<^verbatim>\<open>findUnique\<close> finds no row, and both callers
  catch that to throw \<^verbatim>\<open>APIError.notAuthorized('User Not Found')\<close>.
\<close>

definition users_findUnique_username :: "database \<Rightarrow> string \<Rightarrow> user option" where
  "users_findUnique_username db name = find (\<lambda>u. username u = name) (users db)"

definition users_findUnique_user_id :: "database \<Rightarrow> int \<Rightarrow> user option" where
  "users_findUnique_user_id db uid = find (\<lambda>u. user_id u = uid) (users db)"


definition users_update_password :: "int \<Rightarrow> string \<Rightarrow> database \<Rightarrow> (api_error + unit) \<times> database" where
  "users_update_password uid pw db =
     (if \<exists>u \<in> set (users db). user_id u = uid
      then (Inr (), db\<lparr>users := map (\<lambda>u. if user_id u = uid then u\<lparr>password := pw\<rparr> else u) (users db)\<rparr>)
      else (Inl (PrismaError ''P2025''), db))"

text \<open>
  Functions of the repository that are not among the sources are parameters of the
  service functions, under the names the source calls them by:
  \<^verbatim>\<open>cryptoUtils.hashPassword\<close> and \<^verbatim>\<open>cryptoUtils.verifyPassword\<close>;
  \<^verbatim>\<open>SessionManager.generateNewSessionKeyForUser(username, mobile)\<close>, which returns the new
  session data and may write to the database; \<^verbatim>\<open>AccountService.getAccountsForUser\<close>;
  \<^verbatim>\<open>ConvertUtils.convertBigIntegerToFloat\<close>.
\<close>

record session_data =
  new_sessionkey :: string
  new_trustlimit :: int


text \<open>
  \<^verbatim>\<open>attemptLogin\<close> (lines 28-75). The object it returns has the fields below; an element
  of \<open>accounts\<close> is the account row together with its \<open>balance\<close>.
\<close>

record 'f login_data =
  login_user_id :: int
  login_username :: string
  login_email :: string
  login_sessionkey :: "string option"
  login_sessionkey_mobile :: "string option"
  login_last_update_timestamp :: int
  login_accounts :: "(account \<times> 'f) list"

definition attemptLogin ::
  "(string \<Rightarrow> string \<Rightarrow> bool) \<Rightarrow> (string \<Rightarrow> bool \<Rightarrow> database \<Rightarrow> session_data \<times> database) \<Rightarrow>
   (int \<Rightarrow> database \<Rightarrow> account list) \<Rightarrow> (int \<Rightarrow> 'f) \<Rightarrow>
   string \<Rightarrow> string \<Rightarrow> bool \<Rightarrow> database \<Rightarrow> (api_error + 'f login_data) \<times> database" where
  "attemptLogin verifyPassword generateNewSessionKeyForUser getAccountsForUser convertBigIntegerToFloat
     uname pw mobile db =
     (case users_findUnique_username db uname of
        None \<Rightarrow> (Inl (NotAuthorized ''User Not Found''), db)
      | Some data \<Rightarrow>
          let isValid = verifyPassword pw (password data) in
          if isValid then
            (let (newSessionData, db1) = generateNewSessionKeyForUser uname mobile db;
                 data1 =
                   (if mobile then
                      data\<lparr>sessionkey_mobile := Some (new_sessionkey newSessionData),
                           trustlimit_mobile := Some (new_trustlimit newSessionData)\<rparr>
                    else
                      data\<lparr>sessionkey := Some (new_sessionkey newSessionData),
                           trustlimit := Some (new_trustlimit newSessionData)\<rparr>);
                 userAccounts = getAccountsForUser (user_id data1) db1
             in (Inr \<lparr>login_user_id = user_id data1,
                      login_username = username data1,
                      login_email = email data1,
                      login_sessionkey = sessionkey data1,
                      login_sessionkey_mobile = sessionkey_mobile data1,
                      login_last_update_timestamp = last_update_timestamp data1,
                      login_accounts =
                        map (\<lambda>acct. (acct, convertBigIntegerToFloat
                                (case current_balance acct of None \<Rightarrow> 0 | Some b \<Rightarrow> b)))
                          userAccounts\<rparr>, db1))
          else (Inl (NotAuthorized ''Wrong Credentials''), db))"

text \<open>\<^verbatim>\<open>changeUserPassword\<close> (lines 96-124).\<close>

definition changeUserPassword ::
  "(string \<Rightarrow> string \<Rightarrow> bool) \<Rightarrow> (string \<Rightarrow> string) \<Rightarrow>
   (string \<Rightarrow> bool \<Rightarrow> database \<Rightarrow> session_data \<times> database) \<Rightarrow>
   int \<Rightarrow> string \<Rightarrow> string \<Rightarrow> bool \<Rightarrow> database \<Rightarrow> (api_error + unit) \<times> database" where
  "changeUserPassword verifyPassword hashPassword generateNewSessionKeyForUser
     userId currentPassword newPassword mobile db =
     (case users_findUnique_user_id db userId of
        None \<Rightarrow> (Inl (NotAuthorized ''User Not Found''), db)
      | Some data \<Rightarrow>
          let isValid = verifyPassword currentPassword (password data) in
          if \<not> isValid then (Inl (NotAuthorized ''Wrong credentials''), db)
          else
            (let hashedPassword = hashPassword newPassword in
             case users_update_password userId hashedPassword db of
               (Inl e, db1) \<Rightarrow> (Inl e, db1)
             | (Inr _, db1) \<Rightarrow>
                 (let (newSessionData, db2) = generateNewSessionKeyForUser (username data) mobile db1
                  in (Inr (), db2))))"



section \<open>Categories of a budget\<close>

text \<open>
  MySQL's \<^verbatim>\<open>coalesce(x, 0)\<close>, and \<^verbatim>\<open>truncate(x, d)\<close>, which cuts \<open>x\<close> towards zero to
  \<open>d\<close> decimal places. The quotient of an integer by 100 is an exact decimal, so the
  amounts are rational numbers.
\<close>

definition sql_coalesce :: "int option \<Rightarrow> int \<Rightarrow> int" where
  "sql_coalesce x d = (case x of None \<Rightarrow> d | Some v \<Rightarrow> v)"

definition sql_truncate :: "rat \<Rightarrow> nat \<Rightarrow> rat" where
  "sql_truncate x d =
     (if 0 \<le> x then of_int \<lfloor>x * 10 ^ d\<rfloor> / 10 ^ d
      else - (of_int \<lfloor>- x * 10 ^ d\<rfloor> / 10 ^ d))"

text \<open>
  A row of the result of \<^verbatim>\<open>getAllCategoriesForBudget\<close>, the columns of its \<^verbatim>\<open>SELECT\<close>
  list in order. \<^verbatim>\<open>budgets_budget_id\<close> comes from the left side of the \<^verbatim>\<open>RIGHT JOIN\<close>
  and is \<^verbatim>\<open>NULL\<close> for a category with no row there.
\<close>

record budget_category_row =
  row_users_user_id :: int
  row_category_id :: int
  row_name :: string
  row_status :: string
  row_type :: string
  row_description :: "string option"
  row_color_gradient :: "string option"
  row_budgets_budget_id :: "int option"
  row_exclude_from_budgets :: bool
  row_planned_amount_credit :: rat
  row_planned_amount_debit :: rat
  row_current_amount :: rat

text \<open>
  The derived table \<^verbatim>\<open>b\<close>: the rows of \<^verbatim>\<open>budgets_has_categories\<close> of the user and the
  budget. \<^verbatim>\<open>b RIGHT JOIN categories ON categories.category_id = b.categories_category_id\<close>
  pairs every category with each of its rows of \<^verbatim>\<open>b\<close>, or with \<^verbatim>\<open>NULL\<close>s when it has
  none.
\<close>

definition budget_rows :: "int \<Rightarrow> int \<Rightarrow> database \<Rightarrow> budget_has_category list" where
  "budget_rows userId budgetId db =
     filter (\<lambda>b. budgets_users_user_id b = userId \<and> budgets_budget_id b = budgetId)
       (budgets_has_categories db)"

definition right_join_categories ::
  "budget_has_category list \<Rightarrow> category list \<Rightarrow> (budget_has_category option \<times> category) list" where
  "right_join_categories b cats =
     concat (map (\<lambda>c.
       (let matching = filter (\<lambda>r. category_id c = bhc_category_id r) b
        in if matching = [] then [(None, c)] else map (\<lambda>r. (Some r, c)) matching)) cats)"

definition select_budget_category :: "budget_has_category option \<times> category \<Rightarrow> budget_category_row" where
  "select_budget_category bc =
     (case bc of (b, c) \<Rightarrow>
       \<lparr>row_users_user_id = users_user_id c,
        row_category_id = category_id c,
        row_name = cat_name c,
        row_status = cat_status c,
        row_type = cat_type c,
        row_description = cat_description c,
        row_color_gradient = color_gradient c,
        row_budgets_budget_id = map_option budgets_budget_id b,
        row_exclude_from_budgets = cat_exclude_from_budgets c,
        row_planned_amount_credit =
          sql_truncate (of_int (sql_coalesce (Option.bind b planned_amount_credit) 0) / 100) 2,
        row_planned_amount_debit =
          sql_truncate (of_int (sql_coalesce (Option.bind b planned_amount_debit) 0) / 100) 2,
        row_current_amount =
          sql_truncate (of_int (sql_coalesce (Option.bind b current_amount) 0) / 100) 2\<rparr>)"

text \<open>
  \<^verbatim>\<open>getAllCategoriesForBudget\<close> (categoryService.ts, lines 240-262). The constant
  \<^verbatim>\<open>MYFIN.CATEGORY_STATUS.ACTIVE\<close> (consts.js) is not among the sources and is the first
  parameter.
\<close>

definition getAllCategoriesForBudget :: "string \<Rightarrow> int \<Rightarrow> int \<Rightarrow> database \<Rightarrow> budget_category_row list" where
  "getAllCategoriesForBudget ACTIVE userId budgetId dbClient =
     map select_budget_category
       (filter (\<lambda>(b, c). users_user_id c = userId \<and> cat_status c = ACTIVE)
         (right_join_categories (budget_rows userId budgetId dbClient) (categories dbClient)))"

section \<open>Deleting a category\<close>

text \<open>
  A Prisma operation that has not run yet is a function of the database that fails or
  gives a result and the database after it. \<^verbatim>\<open>prisma.$transaction([...])\<close> runs the
  operations of the list in order in one database transaction: when one of them fails,
  the transaction is rolled back, so the database is the one before the call.
\<close>

datatype op_result = Count nat | DeletedCategory category

type_synonym prisma_op = "database \<Rightarrow> api_error + (op_result \<times> database)"

fun run_operations :: "prisma_op list \<Rightarrow> database \<Rightarrow> api_error + (op_result list \<times> database)" where
  "run_operations [] db = Inr ([], db)"
| "run_operations (oper # opers) db =
     (case oper db of
        Inl e \<Rightarrow> Inl e
      | Inr (r, db1) \<Rightarrow>
          (case run_operations opers db1 of
             Inl e \<Rightarrow> Inl e
           | Inr (rs, db2) \<Rightarrow> Inr (r # rs, db2)))"

definition transaction :: "prisma_op list \<Rightarrow> database \<Rightarrow> (api_error + op_result list) \<times> database" where
  "transaction opers db =
     (case run_operations opers db of
        Inl e \<Rightarrow> (Inl e, db)
      | Inr (rs, db1) \<Rightarrow> (Inr rs, db1))"

text \<open>
  \<^verbatim>\<open>budgets_has_categories.deleteMany({where})\<close> deletes the rows that match and counts
  them; \<^verbatim>\<open>categories.delete({where})\<close> deletes the row that matches and fails when
  there is none (P2025).
\<close>

definition references_category :: "int \<Rightarrow> int \<Rightarrow> budget_has_category \<Rightarrow> bool" where
  "references_category userId categoryId b =
     (bhc_category_id b = categoryId \<and> budgets_users_user_id b = userId)"

definition is_category :: "int \<Rightarrow> int \<Rightarrow> category \<Rightarrow> bool" where
  "is_category userId categoryId c = (users_user_id c = userId \<and> category_id c = categoryId)"

definition budgets_has_categories_deleteMany :: "int \<Rightarrow> int \<Rightarrow> prisma_op" where
  "budgets_has_categories_deleteMany userId categoryId db =
     Inr (Count (length (filter (references_category userId categoryId) (budgets_has_categories db))),
          db\<lparr>budgets_has_categories :=
               filter (\<lambda>b. \<not> references_category userId categoryId b) (budgets_has_categories db)\<rparr>)"

definition categories_delete :: "int \<Rightarrow> int \<Rightarrow> prisma_op" where
  "categories_delete userId categoryId db =
     (case find (is_category userId categoryId) (categories db) of
        None \<Rightarrow> Inl (PrismaError ''P2025'')
      | Some c \<Rightarrow>
          Inr (DeletedCategory c,
               db\<lparr>categories := filter (\<lambda>c. \<not> is_category userId categoryId c) (categories db)\<rparr>))"

text \<open>\<^verbatim>\<open>deleteCategory\<close> (categoryService.ts, lines 27-42).\<close>

definition deleteCategory :: "int \<Rightarrow> int \<Rightarrow> database \<Rightarrow> (api_error + op_result list) \<times> database" where
  "deleteCategory userId categoryId db =
     (let deleteBudgetHasCategoriesRefs = budgets_has_categories_deleteMany userId categoryId;
          deleteCat = categories_delete userId categoryId
      in transaction [deleteBudgetHasCategoriesRefs, deleteCat] db)"

section \<open>Example databases\<close>

text \<open>
  Account 5 is excluded from budgets, account 7 is not; the only transaction is a
  transfer of 100 from account 7 to account 5 in category 1 at time 150.
\<close>

definition transfer_db :: database where
  "transfer_db =
     \<lparr>accounts =
        [\<lparr>account_id = 5, exclude_from_budgets = True, current_balance = None\<rparr>,
         \<lparr>account_id = 7, exclude_from_budgets = False, current_balance = None\<rparr>],
      transactions =
        [\<lparr>date_timestamp = 150, amount = 100, trx_type = ''T'',
          accounts_account_to_id = Some 5, accounts_account_from_id = Some 7,
          categories_category_id = Some 1\<rparr>],
      users = [], categories = [], budgets_has_categories = []\<rparr>"

text \<open>An income of 100 in category 1 on 11 January 1999 (UTC).\<close>

definition january_1999_db :: database where
  "january_1999_db =
     \<lparr>accounts = [],
      transactions =
        [\<lparr>date_timestamp = 916000000, amount = 100, trx_type = ''I'',
          accounts_account_to_id = Some 7, accounts_account_from_id = None,
          categories_category_id = Some 1\<rparr>],
      users = [], categories = [], budgets_has_categories = []\<rparr>"

text \<open>
  Two incomes in category 1: 100 on 5 June 2023 and 500 on 31 December 2023 at noon
  (UTC).
\<close>

definition year_2023_db :: database where
  "year_2023_db =
     \<lparr>accounts = [],
      transactions =
        [\<lparr>date_timestamp = 1686000000, amount = 100, trx_type = ''I'',
          accounts_account_to_id = Some 7, accounts_account_from_id = None,
          categories_category_id = Some 1\<rparr>,
         \<lparr>date_timestamp = 1704024000, amount = 500, trx_type = ''I'',
          accounts_account_to_id = Some 7, accounts_account_from_id = None,
          categories_category_id = Some 1\<rparr>],
      users = [], categories = [], budgets_has_categories = []\<rparr>"

text \<open>
  One user, with a session key stored for the mobile client, and one account. The
  password column holds \<open>''h:old''\<close>.
\<close>

definition ana :: user where
  "ana = \<lparr>user_id = 1, username = ''ana'', password = ''h:old'', email = ''ana@example.org'',
           sessionkey = None, sessionkey_mobile = Some ''m0'',
           trustlimit = None, trustlimit_mobile = Some 10,
           last_update_timestamp = 42\<rparr>"

definition users_db :: database where
  "users_db =
     \<lparr>accounts = [\<lparr>account_id = 7, exclude_from_budgets = False, current_balance = Some 1250\<rparr>],
      transactions = [], users = [ana], categories = [], budgets_has_categories = []\<rparr>"

text \<open>
  Instances of the parameters of the user service for concrete inputs: a hash that
  prefixes the password, the verification that goes with it, a session manager that
  writes the key \<open>''k1''\<close> into the row of the user, all accounts of the database, and
  hundredths as a rational number.
\<close>

definition prefix_hash :: "string \<Rightarrow> string" where
  "prefix_hash pw = ''h:'' @ pw"

definition prefix_verify :: "string \<Rightarrow> string \<Rightarrow> bool" where
  "prefix_verify pw h = (h = prefix_hash pw)"

definition fixed_session :: "string \<Rightarrow> bool \<Rightarrow> database \<Rightarrow> session_data \<times> database" where
  "fixed_session uname mobile db =
     (\<lparr>new_sessionkey = ''k1'', new_trustlimit = 99\<rparr>,
      db\<lparr>users := map (\<lambda>u. if username u = uname then
                              (if mobile then u\<lparr>sessionkey_mobile := Some ''k1'', trustlimit_mobile := Some 99\<rparr>
                               else u\<lparr>sessionkey := Some ''k1'', trustlimit := Some 99\<rparr>)
                            else u) (users db)\<rparr>)"

definition all_accounts :: "int \<Rightarrow> database \<Rightarrow> account list" where
  "all_accounts uid db = accounts db"

definition hundredths :: "int \<Rightarrow> rat" where
  "hundredths i = of_int i / 100"


text \<open>
  Four categories and two rows of \<^verbatim>\<open>budgets_has_categories\<close>. User 1 has the active
  categories 10 and 13 and the inactive category 11; category 12 belongs to user 2.
  Budget 3 of user 1 plans 123.45 of credit for category 10, with a current amount of
  -2.50 and no planned debit. The second row refers to category 10 under user 2.
\<close>

definition budget_db :: database where
  "budget_db =
     \<lparr>accounts = [], transactions = [], users = [],
      categories =
        [\<lparr>category_id = 10, users_user_id = 1, cat_name = ''Food'', cat_status = ''Ativa'',
          cat_type = ''D'', cat_description = None, color_gradient = None,
          cat_exclude_from_budgets = False\<rparr>,
         \<lparr>category_id = 11, users_user_id = 1, cat_name = ''Old'', cat_status = ''Inativa'',
          cat_type = ''D'', cat_description = None, color_gradient = None,
          cat_exclude_from_budgets = False\<rparr>,
         \<lparr>category_id = 12, users_user_id = 2, cat_name = ''Rent'', cat_status = ''Ativa'',
          cat_type = ''D'', cat_description = None, color_gradient = None,
          cat_exclude_from_budgets = False\<rparr>,
         \<lparr>category_id = 13, users_user_id = 1, cat_name = ''Wages'', cat_status = ''Ativa'',
          cat_type = ''C'', cat_description = None, color_gradient = None,
          cat_exclude_from_budgets = False\<rparr>],
      budgets_has_categories =
        [\<lparr>budgets_budget_id = 3, budgets_users_user_id = 1, bhc_category_id = 10,
          planned_amount_credit = Some 12345, planned_amount_debit = None,
          current_amount = Some (- 250)\<rparr>,
         \<lparr>budgets_budget_id = 4, budgets_users_user_id = 2, bhc_category_id = 10,
          planned_amount_credit = None, planned_amount_debit = None,
          current_amount = None\<rparr>]\<rparr>"
section \<open>Properties of the excluded-accounts list\<close>

lemma join_entries_drop:
  assumes "cnt < length es"
  shows "join_entries (drop cnt es) =
    es ! cnt @ (if Suc cnt = length es then [] else '', '' @ join_entries (drop (Suc cnt) es))"
proof -
  from assms obtain e rest where d: "drop cnt es = e # rest"
    by (cases "drop cnt es") auto
  then have e: "e = es ! cnt"
    using assms by (metis nth_via_drop)
  have rest: "rest = drop (Suc cnt) es"
    using d by (metis drop_Suc list.sel(3) tl_drop)
  show ?thesis
  proof (cases "Suc cnt = length es")
    case True
    then have "rest = []" using rest by simp
    with d e True show ?thesis by simp
  next
    case False
    then have "rest \<noteq> []" using rest assms by simp
    then obtain f fs where fs: "rest = f # fs" by (cases rest) auto
    have "join_entries (e # f # fs) = e @ '', '' @ join_entries (f # fs)" by simp
    with d e rest fs False show ?thesis by (simp del: join_entries.simps)
  qed
qed

lemma buildSql_loop_join:
  "cnt \<le> length accs \<Longrightarrow>
   buildSql_loop accs cnt sql = sql @ join_entries (drop cnt (map quoted_entry accs))"
proof (induction accs cnt sql rule: buildSql_loop.induct)
  case (1 excludedAccs cnt sql)
  show ?case
  proof (cases "cnt < length excludedAccs")
    case False
    with "1.prems" show ?thesis by (subst buildSql_loop.simps) simp
  next
    case True
    let ?e = "quoted_entry (excludedAccs ! cnt)"
    let ?sql2 = "if int cnt \<noteq> int (length excludedAccs) - 1
                 then (sql @ ?e) @ '', '' else sql @ ?e"
    have step: "buildSql_loop excludedAccs cnt sql = buildSql_loop excludedAccs (cnt + 1) ?sql2"
      using True by (subst buildSql_loop.simps) (simp add: quoted_entry_def Let_def)
    have ih: "buildSql_loop excludedAccs (cnt + 1) ?sql2 =
              ?sql2 @ join_entries (drop (cnt + 1) (map quoted_entry excludedAccs))"
    proof -
      have le: "cnt + 1 \<le> length excludedAccs" using True by simp
      from "1.IH"[OF True refl refl refl le] show ?thesis
        unfolding quoted_entry_def .
    qed
    have last_iff: "(int cnt \<noteq> int (length excludedAccs) - 1) = (Suc cnt \<noteq> length excludedAccs)"
      by auto
    have eq: "buildSql_loop excludedAccs cnt sql =
              ?sql2 @ join_entries (drop (cnt + 1) (map quoted_entry excludedAccs))"
      by (simp only: step ih)
    have j: "join_entries (drop cnt (map quoted_entry excludedAccs)) =
            ?e @ (if Suc cnt = length excludedAccs then []
                  else '', '' @ join_entries (drop (Suc cnt) (map quoted_entry excludedAccs)))"
      using join_entries_drop[of cnt "map quoted_entry excludedAccs"] True by simp
    show ?thesis
      unfolding eq j by (cases "Suc cnt = length excludedAccs") (simp_all add: last_iff)
  qed
qed

text \<open>
  Claim C8. \<^verbatim>\<open>buildSqlForExcludedAccountsList\<close> returns \<open>'' -1 ''\<close> for a null, undefined
  or empty list; for a non-empty list it returns the account ids in order, each wrapped
  in single quotes with a space on each side, joined by \<open>'', ''\<close>; for two accounts this
  is the text \<^verbatim>\<open> 'a1' ,  'a2' \<close>.
\<close>

theorem buildSqlForExcludedAccountsList_spec:
  "buildSqlForExcludedAccountsList None = '' -1 '' \<and>
   buildSqlForExcludedAccountsList (Some []) = '' -1 '' \<and>
   buildSqlForExcludedAccountsList (Some (a # accs)) = join_entries (map quoted_entry (a # accs)) \<and>
   buildSqlForExcludedAccountsList (Some [a1, a2]) =
     '' '' @ sq @ bigint_to_string (account_id a1) @ sq @ '' ,  '' @ sq @
     bigint_to_string (account_id a2) @ sq @ '' ''"
proof -
  have gen: "buildSqlForExcludedAccountsList (Some (b # bs)) = join_entries (map quoted_entry (b # bs))"
    for b bs
    using buildSql_loop_join[of 0 "b # bs" "[]"]
    by (simp add: buildSqlForExcludedAccountsList_def)
  have two: "buildSqlForExcludedAccountsList (Some [a1, a2]) =
     '' '' @ sq @ bigint_to_string (account_id a1) @ sq @ '' ,  '' @ sq @
     bigint_to_string (account_id a2) @ sq @ '' ''"
    unfolding gen by (simp add: quoted_entry_def)
  show ?thesis
    using gen[of a accs] two by (simp add: buildSqlForExcludedAccountsList_def)
qed

section \<open>The calendar\<close>

lemma div_step:
  fixes a k :: int
  assumes k: "0 < k"
  shows "(a + 1) div k = a div k + (if (a + 1) mod k = 0 then 1 else 0)"
proof -
  define q where "q = a div k"
  define r where "r = a mod k"
  have a: "a = q * k + r" and r0: "0 \<le> r" and rk: "r < k"
    using k by (simp_all add: q_def r_def)
  show ?thesis
  proof (cases "r + 1 = k")
    case True
    then have "a + 1 = (q + 1) * k" using a by (simp add: distrib_right)
    then have "(a + 1) div k = q + 1" "(a + 1) mod k = 0" using k by simp_all
    then show ?thesis by (simp add: q_def)
  next
    case False
    then have lt: "r + 1 < k" using rk by simp
    have e1: "(r + 1 + q * k) div k = (r + 1) div k + q" using k by simp
    have e2: "(r + 1 + q * k) mod k = (r + 1) mod k" by simp
    have eq: "a + 1 = r + 1 + q * k" using a by simp
    have "(a + 1) div k = (r + 1) div k + q" "(a + 1) mod k = (r + 1) mod k"
      by (simp_all only: eq e1 e2)
    moreover have "(r + 1) div k = 0" "(r + 1) mod k = r + 1" using lt r0 by simp_all
    ultimately show ?thesis using r0 by (simp add: q_def)
  qed
qed

lemma shift_mod:
  fixes y k c :: int
  assumes "c mod k = 0"
  shows "(y - c) mod k = 0 \<longleftrightarrow> y mod k = 0"
proof -
  have "(y - c) mod k = (y mod k - c mod k) mod k" by (simp add: mod_diff_eq)
  then show ?thesis using assms by simp
qed

lemma d100_4: "(y::int) mod 100 = 0 \<Longrightarrow> y mod 4 = 0"
proof -
  assume "y mod 100 = 0"
  then have "100 dvd y" by (simp add: dvd_eq_mod_eq_0)
  moreover have "(4::int) dvd 100" by simp
  ultimately have "4 dvd y" by (rule dvd_trans[rotated])
  then show ?thesis by simp
qed

lemma d400_100: "(y::int) mod 400 = 0 \<Longrightarrow> y mod 100 = 0"
proof -
  assume "y mod 400 = 0"
  then have "400 dvd y" by (simp add: dvd_eq_mod_eq_0)
  moreover have "(100::int) dvd 400" by simp
  ultimately have "100 dvd y" by (rule dvd_trans[rotated])
  then show ?thesis by simp
qed

lemma DayFromYear_Suc: "DayFromYear (y + 1) = DayFromYear y + DaysInYear y"
proof -
  have s4: "(y + 1 - 1969) div 4 = (y - 1969) div 4 + (if y mod 4 = 0 then 1 else 0)"
    using div_step[of 4 "y - 1969"] shift_mod[of 1968 4 y] by (simp add: algebra_simps)
  have s100: "(y + 1 - 1901) div 100 = (y - 1901) div 100 + (if y mod 100 = 0 then 1 else 0)"
    using div_step[of 100 "y - 1901"] shift_mod[of 1900 100 y] by (simp add: algebra_simps)
  have s400: "(y + 1 - 1601) div 400 = (y - 1601) div 400 + (if y mod 400 = 0 then 1 else 0)"
    using div_step[of 400 "y - 1601"] shift_mod[of 1600 400 y] by (simp add: algebra_simps)
  show ?thesis
    unfolding DayFromYear_def DaysInYear_def s4 s100 s400
    using d100_4[of y] d400_100[of y] by auto
qed

lemma first_instant_days:
  "first_instant_of_month y m = MakeDay y (m - 1) 1 * msPerDay"
  by (simp add: first_instant_of_month_def MakeDate_def)

lemma MakeDay_december: "MakeDay (y + 1) 0 1 = MakeDay y 11 1 + 31"
proof -
  have a: "MakeDay (y + 1) 0 1 = DayFromYear (y + 1)"
    by (simp add: MakeDay_def month_start_day_def)
  have b: "MakeDay y 11 1 = DayFromYear y + 334 + (if InLeapYear y then 1 else 0)"
    by (simp add: MakeDay_def month_start_day_def)
  have c: "DaysInYear y = 365 + (if InLeapYear y then 1 else 0)"
    by (simp add: InLeapYear_def DaysInYear_def)
  show ?thesis
    unfolding a b DayFromYear_Suc c by (cases "InLeapYear y") simp_all
qed

lemma MakeDay_next_month:
  assumes "1 \<le> m" "m \<le> 11"
  shows "MakeDay y m 1 = MakeDay y (m - 1) 1 + DaysInMonth y m"
proof -
  have md: "MakeDay y k 1 = DayFromYear y + month_start_day k (InLeapYear y)"
    if "0 \<le> k" "k \<le> 11" for k
    using that by (simp add: MakeDay_def)
  have ms: "month_start_day m l = month_start_day (m - 1) l + (if m = 2 then (if l then 29 else 28)
      else if m = 4 \<or> m = 6 \<or> m = 9 \<or> m = 11 then 30 else 31)" for l
  proof -
    from assms have "m = 1 \<or> m = 2 \<or> m = 3 \<or> m = 4 \<or> m = 5 \<or> m = 6 \<or> m = 7 \<or> m = 8 \<or> m = 9 \<or> m = 10 \<or> m = 11"
      by arith
    then show ?thesis
      by (elim disjE) (simp_all add: month_start_day_def)
  qed
  show ?thesis
    using assms md[of m] md[of "m - 1"] ms[of "InLeapYear y"]
    by (simp add: DaysInMonth_def)
qed

lemma month_length:
  assumes "1 \<le> m" "m \<le> 12"
  shows "first_instant_of_month (fst (following_month y m)) (snd (following_month y m)) =
         first_instant_of_month y m + DaysInMonth y m * msPerDay"
proof (cases "m = 12")
  case True
  then show ?thesis
    using MakeDay_december[of y]
    by (simp add: following_month_def first_instant_days DaysInMonth_def distrib_right)
next
  case False
  with assms have "m \<le> 11" by simp
  from MakeDay_next_month[OF assms(1) this] False show ?thesis
    by (simp add: following_month_def first_instant_days distrib_right)
qed

section \<open>The aggregate queries\<close>

lemma join_entries_Cons: "\<exists>rest. join_entries (e # es) = e @ rest"
  by (cases es) simp_all

lemma excluded_list_number:
  "sql_string_to_number (buildSqlForExcludedAccountsList (Some accs)) = (if accs = [] then - 1 else 0)"
proof (cases accs)
  case Nil
  then show ?thesis
    by (simp add: buildSqlForExcludedAccountsList_def sql_string_to_number_def is_sql_space_def
        digit_value_def)
next
  case (Cons a as)
  have "buildSqlForExcludedAccountsList (Some (a # as)) = join_entries (map quoted_entry (a # as))"
    using buildSql_loop_join[of 0 "a # as" "[]"]
    by (simp add: buildSqlForExcludedAccountsList_def)
  moreover obtain rest where "join_entries (map quoted_entry (a # as)) = quoted_entry a @ rest"
    using join_entries_Cons[of "quoted_entry a" "map quoted_entry as"] by auto
  ultimately have "buildSqlForExcludedAccountsList (Some (a # as)) =
      CHR '' '' # CHR 0x27 # (bigint_to_string (account_id a) @ sq @ '' '' @ rest)"
    by (simp add: quoted_entry_def sq_def)
  then show ?thesis
    using Cons by (simp add: sql_string_to_number_def is_sql_space_def digit_value_def)
qed

text \<open>
  What the two conditions of the statement test once the list is bound: with at least one
  excluded account a transfer counts unless its account id is 0, whichever accounts are
  excluded.
\<close>

lemma credit_condition_bound_list:
  "credit_condition (SqlString (buildSqlForExcludedAccountsList (Some accs))) t = Some True \<longleftrightarrow>
     trx_type t = ''I'' \<or>
     (trx_type t = ''T'' \<and>
      (\<exists>a. accounts_account_to_id t = Some a \<and> a \<noteq> (if accs = [] then - 1 else 0)))"
  unfolding credit_condition_def sql_not_in_def sql_number.simps excluded_list_number
  by (cases "accounts_account_to_id t"; cases "trx_type t = ''I''"; cases "trx_type t = ''T''") auto

lemma debit_condition_bound_list:
  "debit_condition (SqlString (buildSqlForExcludedAccountsList (Some accs))) t = Some True \<longleftrightarrow>
     trx_type t = ''E'' \<or>
     (trx_type t = ''T'' \<and>
      (\<exists>a. accounts_account_from_id t = Some a \<and> a \<noteq> (if accs = [] then - 1 else 0)))"
  unfolding debit_condition_def sql_not_in_def sql_number.simps excluded_list_number
  by (cases "accounts_account_from_id t"; cases "trx_type t = ''E''"; cases "trx_type t = ''T''") auto

text \<open>
  Claim C1, at the transfer into the excluded account 5. The list of excluded accounts is
  bound as one string, which the comparison reads as the number 0, so the transfer counts
  as a credit: the statement returns a credit of 100 where the sum over the transfers
  whose destination account is not excluded is 0. The debit of 100 agrees with the sum as
  specified.
\<close>

theorem getAmountForCategoryInPeriod_counts_excluded_transfer:
  "excluded_account_ids transfer_db = {5} \<and>
   query_values (getAmountForCategoryInPeriod_query 1 100 200 True transfer_db) =
     [SqlString ('' '' @ sq @ ''5'' @ sq @ '' ''), SqlString ('' '' @ sq @ ''5'' @ sq @ '' ''),
      SqlInt 100, SqlInt 200, SqlInt 1] \<and>
   getAmountForCategoryInPeriod 1 100 200 True transfer_db =
     [\<lparr>category_balance_credit = Some 100, category_balance_debit = Some 100\<rparr>] \<and>
   spec_credit_sum 1 100 200 transfer_db = 0 \<and>
   spec_debit_sum 1 100 200 transfer_db = 100"
proof -
  have ex: "accounts_to_exclude transfer_db =
      [\<lparr>account_id = 5, exclude_from_budgets = True, current_balance = None\<rparr>]"
    by (simp add: accounts_to_exclude_def transfer_db_def)
  have ids: "excluded_account_ids transfer_db = {5}"
    by (simp add: excluded_account_ids_def ex)
  have q: "query_values (getAmountForCategoryInPeriod_query 1 100 200 True transfer_db) =
     [SqlString ('' '' @ sq @ ''5'' @ sq @ '' ''), SqlString ('' '' @ sq @ ''5'' @ sq @ '' ''),
      SqlInt 100, SqlInt 200, SqlInt 1]"
    by code_simp
  have r: "getAmountForCategoryInPeriod 1 100 200 True transfer_db =
     [\<lparr>category_balance_credit = Some 100, category_balance_debit = Some 100\<rparr>]"
    by code_simp
  have txs: "transactions transfer_db =
      [\<lparr>date_timestamp = 150, amount = 100, trx_type = ''T'',
        accounts_account_to_id = Some 5, accounts_account_from_id = Some 7,
        categories_category_id = Some 1\<rparr>]"
    by (simp add: transfer_db_def)
  have c: "spec_credit_sum 1 100 200 transfer_db = 0"
    by (simp add: spec_credit_sum_def in_window_def spec_is_credit_def ids txs)
  have d: "spec_debit_sum 1 100 200 transfer_db = 100"
    by (simp add: spec_debit_sum_def in_window_def spec_is_debit_def ids txs)
  from ids q r c d show ?thesis by blast
qed

text \<open>
  Claim C4. The text of the statement that \<^verbatim>\<open>getAmountForCategoryInPeriod\<close> sends depends
  on nothing but the flag \<^verbatim>\<open>includeTransfers\<close>, and the text that
  \<^verbatim>\<open>getAverageAmountForCategoryInLast12Months\<close> sends on nothing at all: two runs that
  differ in the category id, the date bounds or the accounts of the database send the
  same text, the fixed chunks of the template joined by placeholders. The values travel
  in the list of bound parameters.
\<close>

theorem aggregate_queries_parameterized:
  "sql_text (getAmountForCategoryInPeriod_query categoryId fromDate toDate includeTransfers db) =
     sql_text (getAmountForCategoryInPeriod_query categoryId' fromDate' toDate' includeTransfers db') \<and>
   sql_text (getAmountForCategoryInPeriod_query categoryId fromDate toDate includeTransfers db) =
     join_placeholders (if includeTransfers then period_with_transfers_strings
                        else period_without_transfers_strings) \<and>
   sql_text (getAverageAmountForCategoryInLast12Months_query categoryId db) =
     sql_text (getAverageAmountForCategoryInLast12Months_query categoryId' db') \<and>
   sql_text (getAverageAmountForCategoryInLast12Months_query categoryId db) =
     join_placeholders average_last_12_months_strings \<and>
   query_values (getAmountForCategoryInPeriod_query categoryId fromDate toDate True db) =
     [SqlString (buildSqlForExcludedAccountsList (Some (accounts_to_exclude db))),
      SqlString (buildSqlForExcludedAccountsList (Some (accounts_to_exclude db))),
      SqlInt fromDate, SqlInt toDate, SqlInt categoryId] \<and>
   query_values (getAmountForCategoryInPeriod_query categoryId fromDate toDate False db) =
     [SqlInt fromDate, SqlInt toDate, SqlInt categoryId]"
proof -
  have p: "sql_text (getAmountForCategoryInPeriod_query c f t i d) =
     join_placeholders (if i then period_with_transfers_strings
                        else period_without_transfers_strings)" for c f t i d
    by (simp add: getAmountForCategoryInPeriod_query_def sql_text_def queryRaw_def Let_def)
  have a: "sql_text (getAverageAmountForCategoryInLast12Months_query c d) =
     join_placeholders average_last_12_months_strings" for c d
    by (simp add: getAverageAmountForCategoryInLast12Months_query_def sql_text_def queryRaw_def
        Let_def split: prod.splits)
  have v1: "query_values (getAmountForCategoryInPeriod_query categoryId fromDate toDate True db) =
     [SqlString (buildSqlForExcludedAccountsList (Some (accounts_to_exclude db))),
      SqlString (buildSqlForExcludedAccountsList (Some (accounts_to_exclude db))),
      SqlInt fromDate, SqlInt toDate, SqlInt categoryId]"
    by (simp add: getAmountForCategoryInPeriod_query_def queryRaw_def Let_def)
  have v2: "query_values (getAmountForCategoryInPeriod_query categoryId fromDate toDate False db) =
     [SqlInt fromDate, SqlInt toDate, SqlInt categoryId]"
    by (simp add: getAmountForCategoryInPeriod_query_def queryRaw_def Let_def)
  show ?thesis
    unfolding p a v1 v2 by simp
qed

section \<open>Amounts of a month and of a year\<close>

lemma new_Date_first_instant:
  assumes "year < 0 \<or> 99 < year"
  shows "new_Date year (m - 1) 1 = first_instant_of_month year m"
  using assms by (auto simp add: new_Date_def first_instant_of_month_def MakeFullYear_def)

text \<open>
  Claim C2, as amended. For a month from 1 to 12 and a year of the range of \<^verbatim>\<open>Date\<close> that
  is not one of 0..99 (and not December of the year -1, whose following January is in the
  year 0), \<^verbatim>\<open>getAmountForCategoryInMonth\<close> returns the first row of
  \<^verbatim>\<open>getAmountForCategoryInPeriod\<close> on the range from the first instant of the month to
  the first instant of the following month, which is January of the next year after
  December and lies the length of the month later.
\<close>

theorem getAmountForCategoryInMonth_range:
  assumes "1 \<le> month" and "month \<le> 12"
    and "- 271820 \<le> year" and "year \<le> 275759"
    and "year < 0 \<or> 99 < year"
    and "\<not> (month = 12 \<and> year = - 1)"
  shows "getAmountForCategoryInMonth getUnixTimestampFromDate categoryId month year includeTransfers db =
           first_row (getAmountForCategoryInPeriod categoryId
             (getUnixTimestampFromDate (first_instant_of_month year month))
             (getUnixTimestampFromDate
               (first_instant_of_month (fst (following_month year month))
                                       (snd (following_month year month))))
             includeTransfers db) \<and>
         following_month year 12 = (year + 1, 1) \<and>
         first_instant_of_month (fst (following_month year month)) (snd (following_month year month)) =
           first_instant_of_month year month + DaysInMonth year month * msPerDay"
proof -
  have minDate: "new_Date year (month - 1) 1 = first_instant_of_month year month"
    using assms(5) by (rule new_Date_first_instant)
  have maxDate: "new_Date (if month < 12 then year else year + 1)
                   ((if month < 12 then month + 1 else 1) - 1) 1 =
                 first_instant_of_month (fst (following_month year month))
                                        (snd (following_month year month))"
  proof (cases "month < 12")
    case True
    then show ?thesis
      using new_Date_first_instant[OF assms(5), of "month + 1"]
      by (simp add: following_month_def)
  next
    case False
    with assms(2) have m: "month = 12" by simp
    with assms(5,6) have "year + 1 < 0 \<or> 99 < year + 1" by auto
    from new_Date_first_instant[OF this, of 1] m show ?thesis
      by (simp add: following_month_def)
  qed
  have run: "getAmountForCategoryInMonth getUnixTimestampFromDate categoryId month year includeTransfers db =
           first_row (getAmountForCategoryInPeriod categoryId
             (getUnixTimestampFromDate (new_Date year (month - 1) 1))
             (getUnixTimestampFromDate (new_Date (if month < 12 then year else year + 1)
                   ((if month < 12 then month + 1 else 1) - 1) 1))
             includeTransfers db)"
    by (simp add: getAmountForCategoryInMonth_def performDatabaseRequest_def Let_def)
  have next_year: "following_month year 12 = (year + 1, 1)"
    by (simp add: following_month_def)
  show ?thesis
    unfolding run minDate maxDate
    using next_year month_length[OF assms(1,2), of year] by simp
qed

theorem getAmountForCategoryInMonth_range_witness:
  "getAmountForCategoryInMonth utc_seconds 1 12 2023 True year_2023_db =
     first_row (getAmountForCategoryInPeriod 1
       (utc_seconds (first_instant_of_month 2023 12))
       (utc_seconds (first_instant_of_month 2024 1)) True year_2023_db) \<and>
   first_instant_of_month 2024 1 = first_instant_of_month 2023 12 + 31 * msPerDay \<and>
   getAmountForCategoryInMonth utc_seconds 1 12 2023 True year_2023_db =
     Some \<lparr>category_balance_credit = Some 500, category_balance_debit = Some 0\<rparr>"
proof -
  have v: "getAmountForCategoryInMonth utc_seconds 1 12 2023 True year_2023_db =
     Some \<lparr>category_balance_credit = Some 500, category_balance_debit = Some 0\<rparr>"
    by code_simp
  have f: "following_month 2023 12 = (2024, 1)" "DaysInMonth 2023 12 = 31"
    by (simp_all add: following_month_def DaysInMonth_def)
  show ?thesis
    using getAmountForCategoryInMonth_range[of 12 2023 utc_seconds 1 True year_2023_db] v f
    by simp
qed

text \<open>
  Claim C2 as stated fails for the year 99: \<^verbatim>\<open>new Date(99, 0, 1)\<close> is 1 January 1999, so
  the income of 11 January 1999 is counted for month 1 of year 99, which the range from
  the first instant of January 99 to the first instant of February 99 does not contain.
\<close>

theorem getAmountForCategoryInMonth_year_99_counterexample:
  "getAmountForCategoryInMonth utc_seconds 1 1 99 True january_1999_db \<noteq>
     first_row (getAmountForCategoryInPeriod 1
       (utc_seconds (first_instant_of_month 99 1))
       (utc_seconds (first_instant_of_month (fst (following_month 99 1)) (snd (following_month 99 1))))
       True january_1999_db)"
proof -
  have code: "getAmountForCategoryInMonth utc_seconds 1 1 99 True january_1999_db =
      Some \<lparr>category_balance_credit = Some 100, category_balance_debit = Some 0\<rparr>"
    by code_simp
  have claimed: "first_row (getAmountForCategoryInPeriod 1
       (utc_seconds (first_instant_of_month 99 1))
       (utc_seconds (first_instant_of_month (fst (following_month 99 1)) (snd (following_month 99 1))))
       True january_1999_db) =
      Some \<lparr>category_balance_credit = None, category_balance_debit = None\<rparr>"
    by code_simp
  show ?thesis
    unfolding code claimed by simp
qed

text \<open>
  Claim C3, at the income of 31 December 2023, noon. \<^verbatim>\<open>getAmountForCategoryInYear\<close> ends
  its window at \<^verbatim>\<open>new Date(year, 11, 31)\<close>, the first instant of 31 December, so a
  transaction later on that day is inside the year and outside the window: the credit
  returned for 2023 is 100, without the 500 of the last day.
\<close>

theorem getAmountForCategoryInYear_misses_last_day:
  "utc_seconds (new_Date 2023 11 31) = 1703980800 \<and>
   utc_seconds (first_instant_of_month 2023 1) \<le> 1704024000 \<and>
   1704024000 < utc_seconds (first_instant_of_month 2024 1) \<and>
   getAmountForCategoryInYear utc_seconds 1 2023 True year_2023_db =
     Some \<lparr>category_balance_credit = Some 100, category_balance_debit = Some 0\<rparr>"
proof -
  have a: "utc_seconds (new_Date 2023 11 31) = 1703980800"
    by code_simp
  have b: "utc_seconds (first_instant_of_month 2023 1) \<le> 1704024000"
    by code_simp
  have c: "1704024000 < utc_seconds (first_instant_of_month 2024 1)"
    by code_simp
  have d: "getAmountForCategoryInYear utc_seconds 1 2023 True year_2023_db =
     Some \<lparr>category_balance_credit = Some 100, category_balance_debit = Some 0\<rparr>"
    by code_simp
  from a b c d show ?thesis by blast
qed

section \<open>The user service\<close>








text \<open>
  Claim C9. When no row has the user id, or the current password does not verify against
  the stored one, \<^verbatim>\<open>changeUserPassword\<close> throws a not-authorized error and the database
  it leaves is the database it was given: no row is written and the session manager is
  not run.
\<close>

theorem changeUserPassword_error_unchanged:
  "(users_findUnique_user_id db userId = None \<longrightarrow>
      changeUserPassword verifyPassword hashPassword generateNewSessionKeyForUser
        userId currentPassword newPassword mobile db = (Inl (NotAuthorized ''User Not Found''), db)) \<and>
   (\<forall>data. users_findUnique_user_id db userId = Some data \<and>
            \<not> verifyPassword currentPassword (password data) \<longrightarrow>
      changeUserPassword verifyPassword hashPassword generateNewSessionKeyForUser
        userId currentPassword newPassword mobile db = (Inl (NotAuthorized ''Wrong credentials''), db))"
  by (simp add: changeUserPassword_def)

theorem changeUserPassword_error_unchanged_witness:
  "users_findUnique_user_id users_db 9 = None \<and>
   changeUserPassword prefix_verify prefix_hash fixed_session 9 ''old'' ''new'' False users_db =
     (Inl (NotAuthorized ''User Not Found''), users_db) \<and>
   users_findUnique_user_id users_db 1 = Some ana \<and>
   \<not> prefix_verify ''bad'' (password ana) \<and>
   changeUserPassword prefix_verify prefix_hash fixed_session 1 ''bad'' ''new'' False users_db =
     (Inl (NotAuthorized ''Wrong credentials''), users_db)"
proof -
  have n: "users_findUnique_user_id users_db 9 = None"
    by (simp add: users_findUnique_user_id_def users_db_def ana_def)
  have s: "users_findUnique_user_id users_db 1 = Some ana"
    by (simp add: users_findUnique_user_id_def users_db_def ana_def)
  have v: "\<not> prefix_verify ''bad'' (password ana)"
    by (simp add: prefix_verify_def prefix_hash_def ana_def)
  show ?thesis
    using n s v
      changeUserPassword_error_unchanged[of users_db 9 prefix_verify prefix_hash fixed_session "''old''" "''new''" False]
      changeUserPassword_error_unchanged[of users_db 1 prefix_verify prefix_hash fixed_session "''bad''" "''new''" False]
    by simp
qed

text \<open>
  Claim C6. \<^verbatim>\<open>attemptLogin\<close> throws a not-authorized error exactly when no row has the
  username or the password does not verify: \<open>''User Not Found''\<close> in the first case,
  \<open>''Wrong Credentials''\<close> in the second. Otherwise it returns the id, the username, the
  e-mail address and the time stamp of the row, the accounts of the user with their
  balances, and the new session key in the slot of the client (mobile or not), the other
  slot holding the stored key.
\<close>

theorem attemptLogin_result:
  "((\<exists>msg. fst (attemptLogin verifyPassword generateNewSessionKeyForUser getAccountsForUser
                  convertBigIntegerToFloat uname pw mobile db) = Inl (NotAuthorized msg)) \<longleftrightarrow>
      (users_findUnique_username db uname = None \<or>
       (\<exists>data. users_findUnique_username db uname = Some data \<and> \<not> verifyPassword pw (password data)))) \<and>
   (users_findUnique_username db uname = None \<longrightarrow>
      attemptLogin verifyPassword generateNewSessionKeyForUser getAccountsForUser
        convertBigIntegerToFloat uname pw mobile db = (Inl (NotAuthorized ''User Not Found''), db)) \<and>
   (\<forall>data. users_findUnique_username db uname = Some data \<and> \<not> verifyPassword pw (password data) \<longrightarrow>
      attemptLogin verifyPassword generateNewSessionKeyForUser getAccountsForUser
        convertBigIntegerToFloat uname pw mobile db = (Inl (NotAuthorized ''Wrong Credentials''), db)) \<and>
   (\<forall>data. users_findUnique_username db uname = Some data \<and> verifyPassword pw (password data) \<longrightarrow>
      attemptLogin verifyPassword generateNewSessionKeyForUser getAccountsForUser
        convertBigIntegerToFloat uname pw mobile db =
        (Inr \<lparr>login_user_id = user_id data,
              login_username = username data,
              login_email = email data,
              login_sessionkey =
                (if mobile then sessionkey data
                 else Some (new_sessionkey (fst (generateNewSessionKeyForUser uname mobile db)))),
              login_sessionkey_mobile =
                (if mobile then Some (new_sessionkey (fst (generateNewSessionKeyForUser uname mobile db)))
                 else sessionkey_mobile data),
              login_last_update_timestamp = last_update_timestamp data,
              login_accounts =
                map (\<lambda>acct. (acct, convertBigIntegerToFloat
                        (case current_balance acct of None \<Rightarrow> 0 | Some b \<Rightarrow> b)))
                  (getAccountsForUser (user_id data)
                    (snd (generateNewSessionKeyForUser uname mobile db)))\<rparr>,
         snd (generateNewSessionKeyForUser uname mobile db)))"
proof (cases "users_findUnique_username db uname")
  case None
  then show ?thesis by (simp add: attemptLogin_def)
next
  case (Some data)
  show ?thesis
  proof (cases "verifyPassword pw (password data)")
    case False
    with Some show ?thesis by (simp add: attemptLogin_def)
  next
    case True
    with Some show ?thesis
      by (cases mobile) (simp_all add: attemptLogin_def Let_def split: prod.splits)
  qed
qed

theorem attemptLogin_result_witness:
  "fst (attemptLogin prefix_verify fixed_session all_accounts hundredths ''ana'' ''old'' False users_db) =
     Inr \<lparr>login_user_id = 1, login_username = ''ana'', login_email = ''ana@example.org'',
           login_sessionkey = Some ''k1'', login_sessionkey_mobile = Some ''m0'',
           login_last_update_timestamp = 42,
           login_accounts =
             [(\<lparr>account_id = 7, exclude_from_budgets = False, current_balance = Some 1250\<rparr>,
               25 / 2)]\<rparr> \<and>
   attemptLogin prefix_verify fixed_session all_accounts hundredths ''zoe'' ''old'' False users_db =
     (Inl (NotAuthorized ''User Not Found''), users_db) \<and>
   attemptLogin prefix_verify fixed_session all_accounts hundredths ''ana'' ''bad'' False users_db =
     (Inl (NotAuthorized ''Wrong Credentials''), users_db)"
proof -
  have ana: "users_findUnique_username users_db ''ana'' = Some ana"
    by (simp add: users_findUnique_username_def users_db_def ana_def)
  have zoe: "users_findUnique_username users_db ''zoe'' = None"
    by (simp add: users_findUnique_username_def users_db_def ana_def)
  have ok: "prefix_verify ''old'' (password ana)"
    by (simp add: prefix_verify_def prefix_hash_def ana_def)
  have bad: "\<not> prefix_verify ''bad'' (password ana)"
    by (simp add: prefix_verify_def prefix_hash_def ana_def)
  have "attemptLogin prefix_verify fixed_session all_accounts hundredths ''zoe'' ''old'' False users_db =
     (Inl (NotAuthorized ''User Not Found''), users_db)"
    using attemptLogin_result[of prefix_verify fixed_session all_accounts hundredths "''zoe''" "''old''"
        False users_db] zoe
    by simp
  moreover
  have "attemptLogin prefix_verify fixed_session all_accounts hundredths ''ana'' ''bad'' False users_db =
     (Inl (NotAuthorized ''Wrong Credentials''), users_db)"
    using attemptLogin_result[of prefix_verify fixed_session all_accounts hundredths "''ana''" "''bad''"
        False users_db] ana bad
    by simp
  moreover
  have "fst (attemptLogin prefix_verify fixed_session all_accounts hundredths ''ana'' ''old'' False users_db) =
     Inr \<lparr>login_user_id = 1, login_username = ''ana'', login_email = ''ana@example.org'',
           login_sessionkey = Some ''k1'', login_sessionkey_mobile = Some ''m0'',
           login_last_update_timestamp = 42,
           login_accounts =
             [(\<lparr>account_id = 7, exclude_from_budgets = False, current_balance = Some 1250\<rparr>,
               25 / 2)]\<rparr>"
    using attemptLogin_result[of prefix_verify fixed_session all_accounts hundredths "''ana''" "''old''"
        False users_db] ana ok
    by (simp add: fixed_session_def all_accounts_def hundredths_def) (simp add: ana_def users_db_def)
  ultimately show ?thesis by blast
qed

section \<open>Categories of a budget and their deletion\<close>

lemma truncate_hundredths: "sql_truncate (of_int a / 100) 2 = of_int a / 100"
  by (simp add: sql_truncate_def)

lemma right_join_categories_member:
  assumes "(b, c) \<in> set (right_join_categories bs cats)"
  shows "c \<in> set cats \<and>
         (case b of None \<Rightarrow> (\<forall>r \<in> set bs. category_id c \<noteq> bhc_category_id r)
          | Some r \<Rightarrow> r \<in> set bs \<and> category_id c = bhc_category_id r)"
  using assms
  by (auto simp: right_join_categories_def Let_def filter_empty_conv split: if_splits option.splits)

lemma right_join_categories_matching:
  assumes "c \<in> set cats" and "r \<in> set bs" and "category_id c = bhc_category_id r"
  shows "(Some r, c) \<in> set (right_join_categories bs cats)"
proof -
  from assms(2,3) have "r \<in> set (filter (\<lambda>r. category_id c = bhc_category_id r) bs)"
    by simp
  moreover from this have "filter (\<lambda>r. category_id c = bhc_category_id r) bs \<noteq> []"
    by (metis empty_iff list.set(1))
  ultimately have "(Some r, c) \<in> set
      (let matching = filter (\<lambda>r. category_id c = bhc_category_id r) bs
       in if matching = [] then [(None, c)] else map (\<lambda>r. (Some r, c)) matching)"
    unfolding Let_def by (simp only: if_False set_map) (rule imageI)
  with assms(1) show ?thesis
    unfolding right_join_categories_def by auto
qed

text \<open>
  Claim C7. Every row that \<^verbatim>\<open>getAllCategoriesForBudget\<close> returns is the row of a category
  of that user whose status is \<^verbatim>\<open>ACTIVE\<close>, joined with a row of that user, budget and
  category in \<^verbatim>\<open>budgets_has_categories\<close>, or with none only when the table has no such
  row; each of its three amounts is the integer stored in that row, 0 when there is no
  row or the column is \<^verbatim>\<open>NULL\<close>, divided by 100 and truncated to two decimal places.
  Conversely every such row of the table gives a row of the result for an active category
  of the user.
\<close>

theorem getAllCategoriesForBudget_rows:
  "(\<forall>r \<in> set (getAllCategoriesForBudget ACTIVE userId budgetId db).
     row_users_user_id r = userId \<and> row_status r = ACTIVE \<and>
     (\<exists>c \<in> set (categories db). \<exists>b.
        (case b of
           None \<Rightarrow>
             (\<forall>s \<in> set (budgets_has_categories db).
                \<not> (budgets_users_user_id s = userId \<and> budgets_budget_id s = budgetId \<and>
                   bhc_category_id s = category_id c))
         | Some s \<Rightarrow> s \<in> set (budgets_has_categories db) \<and> budgets_users_user_id s = userId \<and>
             budgets_budget_id s = budgetId \<and> bhc_category_id s = category_id c) \<and>
        users_user_id c = userId \<and> cat_status c = ACTIVE \<and>
        row_category_id r = category_id c \<and>
        row_budgets_budget_id r = map_option budgets_budget_id b \<and>
        row_planned_amount_credit r =
          sql_truncate (of_int (sql_coalesce (Option.bind b planned_amount_credit) 0) / 100) 2 \<and>
        row_planned_amount_debit r =
          sql_truncate (of_int (sql_coalesce (Option.bind b planned_amount_debit) 0) / 100) 2 \<and>
        row_current_amount r =
          sql_truncate (of_int (sql_coalesce (Option.bind b current_amount) 0) / 100) 2)) \<and>
   (\<forall>c \<in> set (categories db). \<forall>s \<in> set (budgets_has_categories db).
      users_user_id c = userId \<and> cat_status c = ACTIVE \<and>
      budgets_users_user_id s = userId \<and> budgets_budget_id s = budgetId \<and>
      bhc_category_id s = category_id c \<longrightarrow>
      select_budget_category (Some s, c) \<in> set (getAllCategoriesForBudget ACTIVE userId budgetId db))"
proof (intro conjI ballI impI)
  fix r
  assume "r \<in> set (getAllCategoriesForBudget ACTIVE userId budgetId db)"
  then obtain b c where
    j: "(b, c) \<in> set (right_join_categories (budget_rows userId budgetId db) (categories db))"
    and u: "users_user_id c = userId" and s: "cat_status c = ACTIVE"
    and r: "r = select_budget_category (b, c)"
    by (auto simp: getAllCategoriesForBudget_def)
  from right_join_categories_member[OF j]
  have c: "c \<in> set (categories db)"
    and b: "case b of
           None \<Rightarrow>
             (\<forall>s \<in> set (budgets_has_categories db).
                \<not> (budgets_users_user_id s = userId \<and> budgets_budget_id s = budgetId \<and>
                   bhc_category_id s = category_id c))
         | Some s \<Rightarrow> s \<in> set (budgets_has_categories db) \<and> budgets_users_user_id s = userId \<and>
             budgets_budget_id s = budgetId \<and> bhc_category_id s = category_id c"
    by (auto simp: budget_rows_def split: option.splits)
  have fields: "row_category_id r = category_id c"
    "row_budgets_budget_id r = map_option budgets_budget_id b"
    "row_planned_amount_credit r =
          sql_truncate (of_int (sql_coalesce (Option.bind b planned_amount_credit) 0) / 100) 2"
    "row_planned_amount_debit r =
          sql_truncate (of_int (sql_coalesce (Option.bind b planned_amount_debit) 0) / 100) 2"
    "row_current_amount r =
          sql_truncate (of_int (sql_coalesce (Option.bind b current_amount) 0) / 100) 2"
    by (simp_all add: r select_budget_category_def)
  show "row_users_user_id r = userId" and "row_status r = ACTIVE"
    using u s by (simp_all add: r select_budget_category_def)
  from c b u s fields
  show "\<exists>c \<in> set (categories db). \<exists>b.
        (case b of
           None \<Rightarrow>
             (\<forall>s \<in> set (budgets_has_categories db).
                \<not> (budgets_users_user_id s = userId \<and> budgets_budget_id s = budgetId \<and>
                   bhc_category_id s = category_id c))
         | Some s \<Rightarrow> s \<in> set (budgets_has_categories db) \<and> budgets_users_user_id s = userId \<and>
             budgets_budget_id s = budgetId \<and> bhc_category_id s = category_id c) \<and>
        users_user_id c = userId \<and> cat_status c = ACTIVE \<and>
        row_category_id r = category_id c \<and>
        row_budgets_budget_id r = map_option budgets_budget_id b \<and>
        row_planned_amount_credit r =
          sql_truncate (of_int (sql_coalesce (Option.bind b planned_amount_credit) 0) / 100) 2 \<and>
        row_planned_amount_debit r =
          sql_truncate (of_int (sql_coalesce (Option.bind b planned_amount_debit) 0) / 100) 2 \<and>
        row_current_amount r =
          sql_truncate (of_int (sql_coalesce (Option.bind b current_amount) 0) / 100) 2"
    by blast
next
  fix c s
  assume c: "c \<in> set (categories db)" and s: "s \<in> set (budgets_has_categories db)"
    and h: "users_user_id c = userId \<and> cat_status c = ACTIVE \<and>
      budgets_users_user_id s = userId \<and> budgets_budget_id s = budgetId \<and>
      bhc_category_id s = category_id c"
  from s h have "s \<in> set (budget_rows userId budgetId db)"
    by (simp add: budget_rows_def)
  from right_join_categories_matching[OF c this] h
  have "(Some s, c) \<in> set (right_join_categories (budget_rows userId budgetId db) (categories db))"
    by simp
  with h show "select_budget_category (Some s, c) \<in>
      set (getAllCategoriesForBudget ACTIVE userId budgetId db)"
    by (auto simp: getAllCategoriesForBudget_def)
qed

theorem getAllCategoriesForBudget_rows_witness:
  "map (\<lambda>r. (row_category_id r, row_budgets_budget_id r, row_planned_amount_credit r,
             row_planned_amount_debit r, row_current_amount r))
     (getAllCategoriesForBudget ''Ativa'' 1 3 budget_db) =
     [(10, Some 3, 2469 / 20, 0, - (5 / 2)), (13, None, 0, 0, 0)] \<and>
   row_users_user_id (hd (getAllCategoriesForBudget ''Ativa'' 1 3 budget_db)) = 1 \<and>
   row_status (hd (getAllCategoriesForBudget ''Ativa'' 1 3 budget_db)) = ''Ativa'' \<and>
   select_budget_category (Some (hd (budgets_has_categories budget_db)), hd (categories budget_db))
     \<in> set (getAllCategoriesForBudget ''Ativa'' 1 3 budget_db)"
proof -
  have v: "map (\<lambda>r. (row_category_id r, row_budgets_budget_id r, row_planned_amount_credit r,
             row_planned_amount_debit r, row_current_amount r))
     (getAllCategoriesForBudget ''Ativa'' 1 3 budget_db) =
     [(10, Some 3, 2469 / 20, 0, - (5 / 2)), (13, None, 0, 0, 0)]"
    by code_simp
  then have "getAllCategoriesForBudget ''Ativa'' 1 3 budget_db \<noteq> []"
    by auto
  then have "hd (getAllCategoriesForBudget ''Ativa'' 1 3 budget_db) \<in>
             set (getAllCategoriesForBudget ''Ativa'' 1 3 budget_db)"
    by simp
  with getAllCategoriesForBudget_rows[of "''Ativa''" 1 3 budget_db]
  have first: "row_users_user_id (hd (getAllCategoriesForBudget ''Ativa'' 1 3 budget_db)) = 1 \<and>
        row_status (hd (getAllCategoriesForBudget ''Ativa'' 1 3 budget_db)) = ''Ativa''"
    by blast
  have c: "hd (categories budget_db) \<in> set (categories budget_db)"
    and s: "hd (budgets_has_categories budget_db) \<in> set (budgets_has_categories budget_db)"
    by (simp_all add: budget_db_def)
  have m: "users_user_id (hd (categories budget_db)) = 1 \<and>
           cat_status (hd (categories budget_db)) = ''Ativa'' \<and>
           budgets_users_user_id (hd (budgets_has_categories budget_db)) = 1 \<and>
           budgets_budget_id (hd (budgets_has_categories budget_db)) = 3 \<and>
           bhc_category_id (hd (budgets_has_categories budget_db)) = category_id (hd (categories budget_db))"
    by (simp add: budget_db_def)
  from getAllCategoriesForBudget_rows[of "''Ativa''" 1 3 budget_db] c s m
  have "select_budget_category (Some (hd (budgets_has_categories budget_db)), hd (categories budget_db))
     \<in> set (getAllCategoriesForBudget ''Ativa'' 1 3 budget_db)"
    by blast
  with v first show ?thesis by blast
qed

lemma run_two_operations:
  "run_operations [f, g] db =
     (case f db of
        Inl e \<Rightarrow> Inl e
      | Inr (r, db1) \<Rightarrow> (case g db1 of Inl e \<Rightarrow> Inl e | Inr (s, db2) \<Rightarrow> Inr ([r, s], db2)))"
  by (simp split: sum.splits prod.splits)

text \<open>
  Claim C10. \<^verbatim>\<open>deleteCategory\<close> runs both deletions in one transaction. It fails exactly
  when the user has no category with that id, and then the database is unchanged: the
  rows of \<^verbatim>\<open>budgets_has_categories\<close> are still there. Otherwise neither a row of
  \<^verbatim>\<open>budgets_has_categories\<close> that refers to the category under that user nor the
  category is left, and all other rows are.
\<close>

theorem deleteCategory_atomic:
  "(find (is_category userId categoryId) (categories db) = None \<longrightarrow>
      deleteCategory userId categoryId db = (Inl (PrismaError ''P2025''), db)) \<and>
   (\<forall>c. find (is_category userId categoryId) (categories db) = Some c \<longrightarrow>
      (\<exists>n db'. deleteCategory userId categoryId db = (Inr [Count n, DeletedCategory c], db') \<and>
         budgets_has_categories db' =
           filter (\<lambda>b. \<not> references_category userId categoryId b) (budgets_has_categories db) \<and>
         categories db' = filter (\<lambda>c. \<not> is_category userId categoryId c) (categories db) \<and>
         (\<forall>b \<in> set (budgets_has_categories db'). \<not> references_category userId categoryId b) \<and>
         (\<forall>c \<in> set (categories db'). \<not> is_category userId categoryId c)))"
  by (simp add: deleteCategory_def transaction_def run_two_operations
      budgets_has_categories_deleteMany_def categories_delete_def)

theorem deleteCategory_atomic_witness:
  "deleteCategory 2 10 budget_db = (Inl (PrismaError ''P2025''), budget_db) \<and>
   (\<exists>n db'. deleteCategory 1 10 budget_db = (Inr [Count n, DeletedCategory (hd (categories budget_db))], db') \<and>
      map bhc_category_id (budgets_has_categories db') = [10] \<and>
      map budgets_users_user_id (budgets_has_categories db') = [2] \<and>
      map category_id (categories db') = [11, 12, 13])"
proof -
  have none: "find (is_category 2 10) (categories budget_db) = None"
    by (simp add: is_category_def budget_db_def)
  have some: "find (is_category 1 10) (categories budget_db) = Some (hd (categories budget_db))"
    by (simp add: is_category_def budget_db_def)
  have fb: "map bhc_category_id (filter (\<lambda>b. \<not> references_category 1 10 b) (budgets_has_categories budget_db)) = [10]"
    "map budgets_users_user_id (filter (\<lambda>b. \<not> references_category 1 10 b) (budgets_has_categories budget_db)) = [2]"
    by (simp_all add: references_category_def budget_db_def)
  have fc: "map category_id (filter (\<lambda>c. \<not> is_category 1 10 c) (categories budget_db)) = [11, 12, 13]"
    by (simp add: is_category_def budget_db_def)
  from deleteCategory_atomic[of 2 10 budget_db] none
  have a: "deleteCategory 2 10 budget_db = (Inl (PrismaError ''P2025''), budget_db)"
    by simp
  from deleteCategory_atomic[of 1 10 budget_db] some
  obtain n db' where "deleteCategory 1 10 budget_db = (Inr [Count n, DeletedCategory (hd (categories budget_db))], db')"
    and "budgets_has_categories db' =
           filter (\<lambda>b. \<not> references_category 1 10 b) (budgets_has_categories budget_db)"
    and "categories db' = filter (\<lambda>c. \<not> is_category 1 10 c) (categories budget_db)"
    by blast
  with fb fc a show ?thesis by auto
qed

end
